theory Spec2Isabelle
  imports Complex_Main
begin

section \<open>The safety backend: data model\<close>

text \<open>
  The backend (\<^verbatim>\<open>safety-backend/app.py\<close>) is a Flask service with two endpoints,
  \<^verbatim>\<open>location_ping\<close> and \<^verbatim>\<open>end_trip\<close>, one module-level dictionary
  \<^verbatim>\<open>USER_LAST_DISTRICT\<close>, and four outside collaborators: the geocoder, the district
  table, the model pipeline and Firebase messaging.

  Modelling decisions, all of them about what lies outside the source file:
  \<^item> The body returned by \<^verbatim>\<open>request.get_json()\<close> is \<open>None\<close> or a JSON object, kept as an
    association list. Field values are JSON scalars: null, a number or a string; booleans,
    arrays and objects as field values are not modelled.
  \<^item> A collaborator that failed to load is \<^verbatim>\<open>None\<close>, so each is an \<open>option\<close>. The loaded
    objects are what the sources build: \<^verbatim>\<open>model_pipeline\<close> is the scikit-learn pipeline of
    two steps that \<^verbatim>\<open>model.py\<close> dumps (its length is 2, so it is truthy),
    \<^verbatim>\<open>district_data\<close> is a pandas DataFrame (asking for its truth value raises
    \<^verbatim>\<open>ValueError\<close>), \<^verbatim>\<open>geolocator\<close> is a plain object (truthy).
  \<^item> A score is a finite float, read as the real number it denotes: the comparisons of
    \<^verbatim>\<open>interpret_score\<close> against 95, 80, 60 and 40 are exact on floats.
  \<^item> The district table is read only through \<^verbatim>\<open>.loc[name]['crime_rate_per_capita']\<close>, so it
    is a map from a district name to that number; a missing name raises \<^verbatim>\<open>KeyError\<close>.
  \<^item> Every call that leaves the process is recorded in a trace, in the order it is made.
\<close>

datatype jval = JNull | JNum real | JStr string

text \<open>Python's truth value of a JSON scalar: \<^verbatim>\<open>None\<close>, \<^verbatim>\<open>0\<close> and \<^verbatim>\<open>""\<close> are falsy.\<close>

fun truthy :: "jval \<Rightarrow> bool" where
  "truthy JNull = False"
| "truthy (JNum r) = (r \<noteq> 0)"
| "truthy (JStr s) = (s \<noteq> [])"

type_synonym json_obj = "(string \<times> jval) list"

text \<open>\<^verbatim>\<open>data.get(key)\<close>: the value, or \<^verbatim>\<open>None\<close> when the key is absent.\<close>

definition dict_get :: "json_obj \<Rightarrow> string \<Rightarrow> jval" where
  "dict_get data k = (case map_of data k of None \<Rightarrow> JNull | Some v \<Rightarrow> v)"

datatype py_error = KeyError | AttributeError | ValueError | OtherException

text \<open>
  The message package built by \<^verbatim>\<open>interpret_score\<close>. The \<^verbatim>\<open>tagline\<close> field keeps the fixed
  text of the tagline; the number \<^verbatim>\<open>round(score, 1)\<close> that the source prints after it, and the
  \<^verbatim>\<open>emoji\<close> field, are left out.
\<close>

record alert =
  level :: int
  level_name :: string
  tagline :: string
  color_code :: string
  advice :: string

text \<open>A Flask response: the JSON body and the HTTP status code.\<close>

record response =
  body :: "(string \<times> string) list"
  status_code :: nat

text \<open>What \<^verbatim>\<open>geolocator.reverse\<close> can do: raise, find nothing, or give a location, of which
  the source reads only the \<^verbatim>\<open>address\<close> dictionary (empty when the key is absent).\<close>

datatype geo_result = Geo_raises | Geo_none | Geo_location "string \<rightharpoonup> string"

datatype call =
    Reverse jval jval
  | Loc string
  | Predict real
  | Send jval alert

record env =
  geolocator :: "(jval \<Rightarrow> jval \<Rightarrow> geo_result) option"
  model_pipeline :: "(real \<Rightarrow> py_error + real) option"
  district_data :: "(string \<rightharpoonup> real) option"

text \<open>\<^verbatim>\<open>USER_LAST_DISTRICT\<close>: user id to last known district name.\<close>

type_synonym state = "jval \<rightharpoonup> string"

section \<open>Helper functions\<close>

text \<open>The chain of \<^verbatim>\<open>address.get\<close> defaults: county, city\_district, suburb, city.\<close>

definition address_district :: "(string \<rightharpoonup> string) \<Rightarrow> string option" where
  "address_district address =
     (case address ''county'' of Some d \<Rightarrow> Some d
      | None \<Rightarrow> (case address ''city_district'' of Some d \<Rightarrow> Some d
      | None \<Rightarrow> (case address ''suburb'' of Some d \<Rightarrow> Some d
      | None \<Rightarrow> address ''city'')))"

definition get_district_from_coords :: "env \<Rightarrow> jval \<Rightarrow> jval \<Rightarrow> string option \<times> call list" where
  "get_district_from_coords e lat lon =
     (case geolocator e of
        None \<Rightarrow> (None, [])
      | Some g \<Rightarrow>
          (case g lat lon of
             Geo_raises \<Rightarrow> (None, [Reverse lat lon])
           | Geo_none \<Rightarrow> (None, [Reverse lat lon])
           | Geo_location address \<Rightarrow> (address_district address, [Reverse lat lon])))"

definition interpret_score :: "real \<Rightarrow> alert" where
  "interpret_score score =
     (if score \<ge> 95 then
        \<lparr>level = 5, level_name = ''All Clear'', tagline = ''Excellent Safety'',
         color_code = ''GREEN'',
         advice = ''Extremely low risk. Feel free to explore and enjoy all activities with confidence.''\<rparr>
      else if 80 \<le> score \<and> score < 95 then
        \<lparr>level = 4, level_name = ''Low Risk'', tagline = ''Good Safety'',
         color_code = ''BLUE'',
         advice = ''Low risk profile. Practice standard awareness, like being mindful of belongings in crowded places.''\<rparr>
      else if 60 \<le> score \<and> score < 80 then
        \<lparr>level = 3, level_name = ''Elevated Awareness'', tagline = ''Moderate Safety'',
         color_code = ''YELLOW'',
         advice = ''Be observant. After 9:00 PM, stick to main roads and consider using a trusted taxi service for late travel.''\<rparr>
      else if 40 \<le> score \<and> score < 60 then
        \<lparr>level = 2, level_name = ''High Caution'', tagline = ''High Risk'',
         color_code = ''ORANGE'',
         advice = ''Limit non-essential travel, especially walking alone after sunset. Share your live location with a contact.''\<rparr>
      else
        \<lparr>level = 1, level_name = ''Critical Alert'', tagline = ''Critical Risk'',
         color_code = ''RED'',
         advice = ''Very high-risk zone. Travel for essential purposes only, using secure transport. Do not travel alone.''\<rparr>)"

text \<open>
  \<^verbatim>\<open>send_push_notification\<close> wraps \<^verbatim>\<open>messaging.send\<close> in a \<^verbatim>\<open>try\<close> whose handler only prints:
  whether the send succeeds or raises, the caller gets \<^verbatim>\<open>None\<close> back. What remains is the call.
\<close>

definition send_push_notification :: "jval \<Rightarrow> alert \<Rightarrow> call list" where
  "send_push_notification fcm_token message_details = [Send fcm_token message_details]"

section \<open>Endpoints\<close>

definition unavailable_response :: response where
  "unavailable_response =
     \<lparr>body = [(''status'', ''error''), (''message'', ''Server is not properly configured'')],
      status_code = 503\<rparr>"

definition invalid_response :: response where
  "invalid_response =
     \<lparr>body = [(''status'', ''error''), (''message'', ''Invalid data provided'')],
      status_code = 400\<rparr>"

definition outside_response :: response where
  "outside_response =
     \<lparr>body = [(''status'', ''ok''), (''message'', ''User is outside a recognizable district'')],
      status_code = 200\<rparr>"

definition ok_response :: response where
  "ok_response = \<lparr>body = [(''status'', ''ok'')], status_code = 200\<rparr>"

definition trip_ended_response :: response where
  "trip_ended_response =
     \<lparr>body = [(''status'', ''ok''), (''message'', ''Trip ended successfully.'')],
      status_code = 200\<rparr>"

definition not_found_response :: response where
  "not_found_response =
     \<lparr>body = [(''status'', ''error''), (''message'', ''User not found or no active trip.'')],
      status_code = 404\<rparr>"

text \<open>
  Steps 4 to 7 of \<^verbatim>\<open>location_ping\<close>, the body of its \<^verbatim>\<open>try\<close>: look the district up, run
  the model, interpret the score, send the notification. The result is the exception that
  left the block, if any, and the calls made up to there. On a collaborator that is
  \<^verbatim>\<open>None\<close> the attribute access raises \<^verbatim>\<open>AttributeError\<close>.
\<close>

definition alert_cycle ::
  "(real \<Rightarrow> py_error + real) option \<Rightarrow> (string \<rightharpoonup> real) option \<Rightarrow> jval \<Rightarrow> string \<Rightarrow>
     (py_error + alert) \<times> call list" where
  "alert_cycle model table fcm_token current_district =
     (case table of
        None \<Rightarrow> (Inl AttributeError, [])
      | Some district_rows \<Rightarrow>
          (case district_rows current_district of
             None \<Rightarrow> (Inl KeyError, [Loc current_district])
           | Some crime_rate \<Rightarrow>
               (case model of
                  None \<Rightarrow> (Inl AttributeError, [Loc current_district])
                | Some predict \<Rightarrow>
                    (case predict crime_rate of
                       Inl err \<Rightarrow> (Inl err, [Loc current_district, Predict crime_rate])
                     | Inr predicted_score \<Rightarrow>
                         (let message_details = interpret_score predicted_score
                          in (Inr message_details,
                              [Loc current_district, Predict crime_rate]
                                @ send_push_notification fcm_token message_details))))))"

text \<open>
  Line 139, \<^verbatim>\<open>all([model_pipeline, district_data, geolocator])\<close>: the truth values are taken
  from left to right and the first falsy one ends the test. \<^verbatim>\<open>None\<close> is falsy, the pipeline
  is truthy, the DataFrame raises, the geocoder object is truthy.
\<close>

definition truth_pipeline :: "(real \<Rightarrow> py_error + real) option \<Rightarrow> py_error + bool" where
  "truth_pipeline model = (case model of None \<Rightarrow> Inr False | Some predict \<Rightarrow> Inr True)"

definition truth_dataframe :: "(string \<rightharpoonup> real) option \<Rightarrow> py_error + bool" where
  "truth_dataframe table = (case table of None \<Rightarrow> Inr False | Some district_rows \<Rightarrow> Inl ValueError)"

definition truth_geolocator :: "(jval \<Rightarrow> jval \<Rightarrow> geo_result) option \<Rightarrow> py_error + bool" where
  "truth_geolocator g = (case g of None \<Rightarrow> Inr False | Some reverse \<Rightarrow> Inr True)"

definition all_loaded :: "env \<Rightarrow> py_error + bool" where
  "all_loaded e =
     (case truth_pipeline (model_pipeline e) of
        Inl err \<Rightarrow> Inl err
      | Inr False \<Rightarrow> Inr False
      | Inr True \<Rightarrow>
          (case truth_dataframe (district_data e) of
             Inl err \<Rightarrow> Inl err
           | Inr False \<Rightarrow> Inr False
           | Inr True \<Rightarrow> truth_geolocator (geolocator e)))"

text \<open>
  Lines 142 to 158 of \<^verbatim>\<open>location_ping\<close>: validate the body, resolve the district, read
  \<^verbatim>\<open>USER_LAST_DISTRICT\<close> and compare. The handler is then either done, with its response, or
  has seen the user enter a district. The test \<^verbatim>\<open>not data\<close> is covered by the four
  membership tests, since an empty dictionary has none of the keys.
\<close>

datatype progress = Done response | Entered jval jval string

definition ping_read :: "env \<Rightarrow> state \<Rightarrow> json_obj option \<Rightarrow> progress \<times> call list" where
  "ping_read e USER_LAST_DISTRICT request_json =
     (case request_json of
        None \<Rightarrow> (Done invalid_response, [])
      | Some data \<Rightarrow>
          (case (map_of data ''user_id'', map_of data ''lat'', map_of data ''lon'',
                 map_of data ''fcm_token'') of
             (Some user_id, Some lat, Some lon, Some fcm_token) \<Rightarrow>
               (case get_district_from_coords e lat lon of
                  (None, t) \<Rightarrow> (Done outside_response, t)
                | (Some current_district, t) \<Rightarrow>
                    if current_district = [] then (Done outside_response, t)
                    else if Some current_district \<noteq> USER_LAST_DISTRICT user_id
                    then (Entered user_id fcm_token current_district, t)
                    else (Done ok_response, t))
           | _ \<Rightarrow> (Done invalid_response, [])))"

text \<open>
  Lines 159 to 183, for a handler that has seen the user enter a district. Both handlers of
  the \<^verbatim>\<open>try\<close> only print, and step 8, the assignment to \<^verbatim>\<open>USER_LAST_DISTRICT[user_id]\<close>,
  comes after the whole \<^verbatim>\<open>try\<close> statement: it runs whatever the outcome of the cycle.
\<close>

definition ping_commit ::
  "env \<Rightarrow> state \<Rightarrow> jval \<Rightarrow> jval \<Rightarrow> string \<Rightarrow> response \<times> state \<times> call list" where
  "ping_commit e USER_LAST_DISTRICT user_id fcm_token current_district =
     (ok_response,
      USER_LAST_DISTRICT(user_id \<mapsto> current_district),
      snd (alert_cycle (model_pipeline e) (district_data e) fcm_token current_district))"

text \<open>Lines 142 to 183 in one piece: what a ping does once line 139 has let it through.\<close>

definition location_ping_body ::
  "env \<Rightarrow> state \<Rightarrow> json_obj option \<Rightarrow> response \<times> state \<times> call list" where
  "location_ping_body e USER_LAST_DISTRICT request_json =
     (case ping_read e USER_LAST_DISTRICT request_json of
        (Done r, t) \<Rightarrow> (r, USER_LAST_DISTRICT, t)
      | (Entered user_id fcm_token current_district, t) \<Rightarrow>
          (case ping_commit e USER_LAST_DISTRICT user_id fcm_token current_district of
             (r, USER_LAST_DISTRICT', t') \<Rightarrow> (r, USER_LAST_DISTRICT', t @ t')))"

text \<open>
  \<^verbatim>\<open>location_ping\<close>, the whole handler. An exception at line 139 is caught by nothing: the
  request ends there (Flask answers 500), with the state as it was and no call made.
\<close>

definition location_ping ::
  "env \<Rightarrow> state \<Rightarrow> json_obj option \<Rightarrow> (py_error + response) \<times> state \<times> call list" where
  "location_ping e USER_LAST_DISTRICT request_json =
     (case all_loaded e of
        Inl err \<Rightarrow> (Inl err, USER_LAST_DISTRICT, [])
      | Inr False \<Rightarrow> (Inr unavailable_response, USER_LAST_DISTRICT, [])
      | Inr True \<Rightarrow>
          (case location_ping_body e USER_LAST_DISTRICT request_json of
             (r, USER_LAST_DISTRICT', t) \<Rightarrow> (Inr r, USER_LAST_DISTRICT', t)))"

text \<open>
  \<^verbatim>\<open>end_trip\<close>. With no JSON body \<^verbatim>\<open>data\<close> is \<^verbatim>\<open>None\<close> and \<^verbatim>\<open>data.get\<close> raises
  \<^verbatim>\<open>AttributeError\<close>, which nothing catches.
\<close>

definition end_trip :: "state \<Rightarrow> json_obj option \<Rightarrow> py_error + response \<times> state" where
  "end_trip USER_LAST_DISTRICT request_json =
     (case request_json of
        None \<Rightarrow> Inl AttributeError
      | Some data \<Rightarrow>
          (let user_id = dict_get data ''user_id''
           in if truthy user_id \<and> USER_LAST_DISTRICT user_id \<noteq> None
              then Inr (trip_ended_response, USER_LAST_DISTRICT(user_id := None))
              else Inr (not_found_response, USER_LAST_DISTRICT)))"

section \<open>Handlers running side by side\<close>









section \<open>A concrete deployment\<close>

text \<open>
  Four places: latitude 1 lies in district A, 2 in B, 3 in C and 4 in D; anywhere else the
  geocoder finds nothing. The table knows A, B and D but not C. The model scores A at 85
  and B at 30, and raises on D's crime rate.
\<close>

definition ex_geolocator :: "jval \<Rightarrow> jval \<Rightarrow> geo_result" where
  "ex_geolocator lat lon =
     (if lat = JNum 1 then Geo_location [''county'' \<mapsto> ''A'']
      else if lat = JNum 2 then Geo_location [''county'' \<mapsto> ''B'']
      else if lat = JNum 3 then Geo_location [''county'' \<mapsto> ''C'']
      else if lat = JNum 4 then Geo_location [''county'' \<mapsto> ''D'']
      else Geo_none)"

definition ex_table :: "string \<rightharpoonup> real" where
  "ex_table = [''A'' \<mapsto> 10, ''B'' \<mapsto> 20, ''D'' \<mapsto> 30]"

definition ex_predict :: "real \<Rightarrow> py_error + real" where
  "ex_predict x = (if x = 10 then Inr 85 else if x = 20 then Inr 30 else Inl OtherException)"

definition ex_env :: env where
  "ex_env = \<lparr>geolocator = Some ex_geolocator, model_pipeline = Some ex_predict,
             district_data = Some ex_table\<rparr>"

definition ex_env_no_geolocator :: env where
  "ex_env_no_geolocator = \<lparr>geolocator = None, model_pipeline = Some ex_predict,
             district_data = Some ex_table\<rparr>"

definition ex_ping :: "string \<Rightarrow> real \<Rightarrow> json_obj" where
  "ex_ping u lat =
     [(''user_id'', JStr u), (''lat'', JNum lat), (''lon'', JNum 0), (''fcm_token'', JStr ''tok'')]"



definition in_A :: "string \<Rightarrow> state" where
  "in_A u = [JStr u \<mapsto> ''A'']"


section \<open>Facts shared by the proofs\<close>

lemma level_interpret_score:
  "level (interpret_score s) =
     (if s \<ge> 95 then 5 else if s \<ge> 80 then 4 else if s \<ge> 60 then 3 else if s \<ge> 40 then 2 else 1)"
  by (simp add: interpret_score_def)

lemma response_distinct:
  "unavailable_response \<noteq> invalid_response" "not_found_response \<noteq> invalid_response"
  "trip_ended_response \<noteq> not_found_response"
  by (simp_all add: unavailable_response_def invalid_response_def not_found_response_def
      trip_ended_response_def)

lemma all_loaded_cases:
  "all_loaded e =
     (if model_pipeline e = None \<or> district_data e = None then Inr False else Inl ValueError)"
  by (auto simp: all_loaded_def truth_pipeline_def truth_dataframe_def split: option.splits)

lemma location_ping_cases:
  "location_ping e USER request_json =
     (if model_pipeline e = None \<or> district_data e = None then Inr unavailable_response
      else Inl ValueError, USER, [])"
  by (simp add: location_ping_def all_loaded_cases)




















section \<open>The score interpreter\<close>

text \<open>
  Claim C3. \<^verbatim>\<open>interpret_score\<close> is a total function of the score with half-open bands:
  level 5 exactly from 95 up, level 4 exactly on [80, 95), level 3 on [60, 80), level 2 on
  [40, 60) and level 1 exactly below 40. Every score, negative or above 100 included, gets
  one of the five levels, and the boundary values of the specification come out as listed
  there.
\<close>

theorem interpret_score_levels:
  "(level (interpret_score s) = 5 \<longleftrightarrow> 95 \<le> s) \<and>
   (level (interpret_score s) = 4 \<longleftrightarrow> 80 \<le> s \<and> s < 95) \<and>
   (level (interpret_score s) = 3 \<longleftrightarrow> 60 \<le> s \<and> s < 80) \<and>
   (level (interpret_score s) = 2 \<longleftrightarrow> 40 \<le> s \<and> s < 60) \<and>
   (level (interpret_score s) = 1 \<longleftrightarrow> s < 40) \<and>
   level (interpret_score s) \<in> {1, 2, 3, 4, 5} \<and>
   level (interpret_score 95.0) = 5 \<and>
   level (interpret_score 94.999) = 4 \<and>
   level (interpret_score 80.0) = 4 \<and>
   level (interpret_score 59.9999) = 2 \<and>
   level (interpret_score 40.0) = 2 \<and>
   level (interpret_score 39.9) = 1 \<and>
   level (interpret_score (- 7)) = 1 \<and>
   level (interpret_score 250) = 5"
  by (simp add: level_interpret_score)

section \<open>The readiness test of line 139\<close>

text \<open>
  Claim C6 says that a ping received while the model, the district table or the geocoder is
  not initialised gets the service-unavailable response, for every combination of missing
  collaborators. The handler does so only while the model or the table is missing. With
  both loaded, line 139 asks the DataFrame for its truth value before it looks at the
  geocoder, and the request ends in \<^verbatim>\<open>ValueError\<close>: so it does when only the geocoder is
  missing, which is the case the claim fails on. In every case the state is untouched and
  no call is made.
\<close>

theorem location_ping_readiness:
  "location_ping e USER request_json =
     (if model_pipeline e = None \<or> district_data e = None then Inr unavailable_response
      else Inl ValueError, USER, []) \<and>
   location_ping ex_env_no_geolocator (in_A ''u1'') (Some (ex_ping ''u1'' 2)) =
     (Inl ValueError, in_A ''u1'', []) \<and>
   location_ping ex_env_no_geolocator (in_A ''u1'') None = (Inl ValueError, in_A ''u1'', [])"
  by (simp add: location_ping_cases ex_env_no_geolocator_def)


text \<open>
  Claim C9, as amended. A ping with no body, or with a body that lacks one of
  \<^verbatim>\<open>user_id\<close>, \<^verbatim>\<open>lat\<close>, \<^verbatim>\<open>lon\<close>, \<^verbatim>\<open>fcm_token\<close>, changes no state and makes no outside
  call. While the model or the district table is not initialised its answer is the
  service-unavailable response, because the readiness test comes first; once past that
  test, lines 142 to 145 answer it with the invalid-data response.
\<close>

theorem ping_invalid_input:
  assumes "case request_json of
             None \<Rightarrow> True
           | Some data \<Rightarrow> map_of data ''user_id'' = None \<or> map_of data ''lat'' = None \<or>
               map_of data ''lon'' = None \<or> map_of data ''fcm_token'' = None"
  shows "snd (location_ping e USER request_json) = (USER, []) \<and>
         (model_pipeline e = None \<or> district_data e = None \<longrightarrow>
            fst (location_ping e USER request_json) = Inr unavailable_response) \<and>
         location_ping_body e USER request_json = (invalid_response, USER, [])"
  using assms
  by (auto simp: location_ping_cases location_ping_body_def ping_read_def split: option.splits)

theorem ping_invalid_input_witness:
  "location_ping (ex_env\<lparr>model_pipeline := None\<rparr>) (in_A ''u1'') None =
     (Inr unavailable_response, in_A ''u1'', []) \<and>
   location_ping (ex_env\<lparr>district_data := None\<rparr>) (in_A ''u1'')
       (Some [(''user_id'', JStr ''u1''), (''lat'', JNum 2), (''lon'', JNum 0)]) =
     (Inr unavailable_response, in_A ''u1'', []) \<and>
   location_ping_body ex_env (in_A ''u1'') None = (invalid_response, in_A ''u1'', []) \<and>
   location_ping_body ex_env (in_A ''u1'') (Some []) = (invalid_response, in_A ''u1'', []) \<and>
   location_ping_body ex_env (in_A ''u1'')
       (Some [(''user_id'', JStr ''u1''), (''lat'', JNum 2), (''lon'', JNum 0)]) =
     (invalid_response, in_A ''u1'', [])"
  using ping_invalid_input [of None "ex_env\<lparr>model_pipeline := None\<rparr>" "in_A ''u1''"]
    ping_invalid_input
      [of "Some [(''user_id'', JStr ''u1''), (''lat'', JNum 2), (''lon'', JNum 0)]"
          "ex_env\<lparr>district_data := None\<rparr>" "in_A ''u1''"]
    ping_invalid_input [of None ex_env "in_A ''u1''"]
    ping_invalid_input [of "Some []" ex_env "in_A ''u1''"]
    ping_invalid_input
      [of "Some [(''user_id'', JStr ''u1''), (''lat'', JNum 2), (''lon'', JNum 0)]" ex_env "in_A ''u1''"]
  by (simp add: prod_eq_iff)

text \<open>
  The claim as the specification has it, the invalid-data answer for every such ping, fails
  where the model or the table is missing: the ping with no body, and the ping without a
  token, are answered with service-unavailable.
\<close>

theorem invalid_input_counterexample:
  "location_ping (ex_env\<lparr>model_pipeline := None\<rparr>) (in_A ''u1'') None =
     (Inr unavailable_response, in_A ''u1'', []) \<and>
   location_ping (ex_env\<lparr>district_data := None\<rparr>) (in_A ''u1'')
       (Some [(''user_id'', JStr ''u1''), (''lat'', JNum 2), (''lon'', JNum 0)]) =
     (Inr unavailable_response, in_A ''u1'', []) \<and>
   unavailable_response \<noteq> invalid_response"
  by (simp add: location_ping_cases response_distinct)

section \<open>Failures inside the alert cycle\<close>







section \<open>What a ping answers\<close>




section \<open>Pings of one user side by side\<close>





section \<open>Ending a trip\<close>




text \<open>
  Claim C10. An \<^verbatim>\<open>end_trip\<close> request whose body has no \<^verbatim>\<open>user_id\<close>, or has the empty string
  there, is answered with not-found, never with the invalid-data response, and leaves
  \<^verbatim>\<open>USER_LAST_DISTRICT\<close> unchanged: it is the answer given for any user without an entry.
\<close>

theorem end_trip_missing_user_id:
  assumes "map_of data ''user_id'' = None \<or> map_of data ''user_id'' = Some (JStr [])"
  shows "end_trip USER (Some data) = Inr (not_found_response, USER) \<and>
         not_found_response \<noteq> invalid_response \<and>
         end_trip (USER(u := None)) (Some [(''user_id'', u)]) =
           Inr (not_found_response, USER(u := None))"
  using assms by (auto simp: end_trip_def dict_get_def response_distinct)

theorem end_trip_missing_user_id_witness:
  "end_trip (in_A []) (Some []) = Inr (not_found_response, in_A []) \<and>
   end_trip (in_A []) (Some [(''user_id'', JStr [])]) = Inr (not_found_response, in_A []) \<and>
   end_trip (in_A []) (Some [(''trip'', JNum 7)]) = Inr (not_found_response, in_A [])"
  using end_trip_missing_user_id [of "[]" "in_A []"]
    end_trip_missing_user_id [of "[(''user_id'', JStr [])]" "in_A []"]
    end_trip_missing_user_id [of "[(''trip'', JNum 7)]" "in_A []"]
  by simp

end
